theory Spec2Isabelle
  imports Main
begin

section \<open>The image generation script (generate-image.ts)\<close>

text \<open>
  Strings are character lists. The script runs against a file system and a console, which
  are the two components of the world it changes; everything it calls from a library
  (\<open>path.extname\<close>, \<open>String.prototype.toLowerCase\<close>, the two base64 conversions of
  \<open>Buffer\<close>, whether \<open>fs.writeFileSync\<close> accepts a path, the construction of the
  client by \<open>new GoogleGenAI({})\<close>, which may throw, and the remote
  \<open>ai.models.generateContent\<close>) is a field of an environment record, so every statement
  below holds for whatever these functions compute.
\<close>

type_synonym bytes = "char list"

record GenerateImageOptions =
  prompt :: string
  imagePath :: "string option"
  outputPath :: "string option"

text \<open>The elements of the \<open>contents\<close> array sent to the model.\<close>

datatype content_item =
    TextItem string
  | InlineDataItem string string  \<comment> \<open>\<open>mimeType\<close>, \<open>data\<close>\<close>

text \<open>
  The response, with every field optional as in the client library's types; the
  non-null assertions \<open>!\<close> of the script are erased at run time, so reading through an
  absent field raises a \<open>TypeError\<close>.
\<close>

record blob =
  blob_mimeType :: "string option"
  blob_data :: "string option"

record part =
  part_text :: "string option"
  part_inlineData :: "blob option"

record content =
  content_parts :: "part list option"

record candidate =
  candidate_content :: "content option"

record response =
  candidates :: "candidate list option"

datatype error =
    Error string       \<comment> \<open>\<open>throw new Error(msg)\<close>\<close>
  | TypeError          \<comment> \<open>reading a property of \<open>undefined\<close>, iterating \<open>undefined\<close>, \<open>Buffer.from(undefined)\<close>\<close>
  | ReadError string   \<comment> \<open>\<open>fs.readFileSync\<close> on a path that cannot be read\<close>
  | WriteError string  \<comment> \<open>\<open>fs.writeFileSync\<close> on a path that cannot be written\<close>
  | ApiError string    \<comment> \<open>the request to the model is rejected\<close>

record world =
  files :: "string \<rightharpoonup> bytes"
  console :: "string list"

record env =
  newClient :: "error option"  \<comment> \<open>the error \<open>new GoogleGenAI({})\<close> throws, if it throws\<close>
  extname :: "string \<Rightarrow> string"
  toLowerCase :: "string \<Rightarrow> string"
  toBase64 :: "bytes \<Rightarrow> string"
  fromBase64 :: "string \<Rightarrow> bytes"
  canWrite :: "string \<Rightarrow> bool"
  generateContent :: "content_item list \<Rightarrow> error + response"

text \<open>JavaScript truthiness of an optional string: defined and not empty.\<close>

definition truthy :: "string option \<Rightarrow> bool" where
  "truthy s = (case s of None \<Rightarrow> False | Some v \<Rightarrow> v \<noteq> [])"

text \<open>The conditional chain that picks the MIME type from the lowercased extension.\<close>

definition mimeType :: "string \<Rightarrow> string" where
  "mimeType ext =
     (if ext = ''.jpg'' \<or> ext = ''.jpeg'' then ''image/jpeg''
      else if ext = ''.png'' then ''image/png''
      else if ext = ''.webp'' then ''image/webp''
      else if ext = ''.gif'' then ''image/gif''
      else ''image/png'')"

text \<open>
  The first half of \<open>generateImage\<close>: the \<open>contents\<close> array. It starts with the prompt;
  when \<open>options.imagePath\<close> is truthy the file is read (which may throw) and pushed as
  inline data.
\<close>

definition buildContents ::
  "env \<Rightarrow> GenerateImageOptions \<Rightarrow> (string \<rightharpoonup> bytes) \<Rightarrow> error + content_item list" where
  "buildContents e options fs =
     (if truthy (imagePath options) then
        (let p = the (imagePath options) in
         case fs p of
           None \<Rightarrow> Inl (ReadError p)
         | Some imageData \<Rightarrow>
             (let base64Image = toBase64 e imageData;
                  ext = toLowerCase e (extname e p)
              in Inr [TextItem (prompt options), InlineDataItem (mimeType ext) base64Image]))
      else Inr [TextItem (prompt options)])"

text \<open>\<open>response.candidates![0].content!.parts!\<close>\<close>

definition responseParts :: "response \<Rightarrow> part list option" where
  "responseParts r =
     (case candidates r of
        None \<Rightarrow> None
      | Some [] \<Rightarrow> None
      | Some (c # _) \<Rightarrow>
          (case candidate_content c of
             None \<Rightarrow> None
           | Some ct \<Rightarrow> content_parts ct))"

text \<open>
  The \<open>for ... of\<close> loop over the parts. A part with truthy text is logged and skipped
  (its \<open>inlineData\<close>, if any, is not looked at); otherwise a part with \<open>inlineData\<close>
  is decoded, written and ends the function (with the error of the decoding or of the
  write when one of them throws); any other part is skipped. Falling out of the loop
  throws.
\<close>

fun scanParts :: "env \<Rightarrow> string \<Rightarrow> part list \<Rightarrow> world \<Rightarrow> (error + string) \<times> world" where
  "scanParts e out [] w = (Inl (Error ''No image was generated in the response''), w)"
| "scanParts e out (p # ps) w =
     (if truthy (part_text p) then
        scanParts e out ps (w\<lparr>console := console w @ [''Response text: '' @ the (part_text p)]\<rparr>)
      else
        (case part_inlineData p of
           None \<Rightarrow> scanParts e out ps w
         | Some b \<Rightarrow>
             (case blob_data b of
                None \<Rightarrow> (Inl TypeError, w)
              | Some imageData \<Rightarrow>
                  (if canWrite e out then
                     (Inr out,
                      w\<lparr>files := (files w)(out \<mapsto> fromBase64 e imageData),
                        console := console w @ [''Image saved as '' @ out]\<rparr>)
                   else (Inl (WriteError out), w)))))"

text \<open>\<open>options.outputPath || 'generated-image.png'\<close>\<close>

definition outputPathOf :: "GenerateImageOptions \<Rightarrow> string" where
  "outputPathOf options =
     (if truthy (outputPath options) then the (outputPath options) else ''generated-image.png'')"

definition generateImage ::
  "env \<Rightarrow> GenerateImageOptions \<Rightarrow> world \<Rightarrow> (error + string) \<times> world" where
  "generateImage e options w =
     (case newClient e of
        Some err \<Rightarrow> (Inl err, w)
      | None \<Rightarrow>
          (case buildContents e options (files w) of
             Inl err \<Rightarrow> (Inl err, w)
           | Inr contents \<Rightarrow>
               (case generateContent e contents of
                  Inl err \<Rightarrow> (Inl err, w)
                | Inr r \<Rightarrow>
                    (case responseParts r of
                       None \<Rightarrow> (Inl TypeError, w)
                     | Some ps \<Rightarrow> scanParts e (outputPathOf options) ps w))))"

text \<open>
  A small concrete environment for evaluating the model: ASCII lowercasing, an extension
  taken after the last dot, a client whose construction succeeds, the identity in place
  of the base64 codec, a file system
  that accepts every write, and a model that answers every request with a fixed response.
\<close>

definition asciiLower :: "string \<Rightarrow> string" where
  "asciiLower s =
     map (\<lambda>c. if (65::nat) \<le> of_char c \<and> of_char c \<le> (90::nat)
              then char_of (of_char c + (32::nat)) else c) s"

definition lastDotExt :: "string \<Rightarrow> string" where
  "lastDotExt p =
     (if CHR ''.'' \<in> set p then CHR ''.'' # rev (takeWhile (\<lambda>c. c \<noteq> CHR ''.'') (rev p)) else [])"

definition testEnv :: "response \<Rightarrow> env" where
  "testEnv r =
     \<lparr>newClient = None, extname = lastDotExt, toLowerCase = asciiLower,
      toBase64 = id, fromBase64 = id, canWrite = (\<lambda>_. True),
      generateContent = (\<lambda>_. Inr r)\<rparr>"

definition responseOf :: "part list \<Rightarrow> response" where
  "responseOf ps = \<lparr>candidates = Some [\<lparr>candidate_content = Some \<lparr>content_parts = Some ps\<rparr>\<rparr>]\<rparr>"

definition emptyWorld :: world where
  "emptyWorld = \<lparr>files = Map.empty, console = []\<rparr>"

text \<open>
  Two response parts for evaluation: one that carries both a caption and inline data, and
  one that carries inline data only.
\<close>

definition captionedPart :: part where
  "captionedPart =
     \<lparr>part_text = Some ''caption'',
      part_inlineData = Some \<lparr>blob_mimeType = Some ''image/png'', blob_data = Some ''AAAA''\<rparr>\<rparr>"

definition imagePart :: part where
  "imagePart =
     \<lparr>part_text = None,
      part_inlineData = Some \<lparr>blob_mimeType = Some ''image/png'', blob_data = Some ''BBBB''\<rparr>\<rparr>"

text \<open>What the loop is looking for: the first part without truthy text that has inline data.\<close>

definition firstImagePart :: "part list \<Rightarrow> part option" where
  "firstImagePart ps = find (\<lambda>p. \<not> truthy (part_text p) \<and> part_inlineData p \<noteq> None) ps"

text \<open>
  What the loop prints before it ends: one line for every part with truthy text that
  comes before the first such part, in order. Parts after that one are never visited.
\<close>

definition loggedTexts :: "part list \<Rightarrow> string list" where
  "loggedTexts ps =
     map (\<lambda>p. ''Response text: '' @ the (part_text p))
       (filter (\<lambda>p. truthy (part_text p))
          (takeWhile (\<lambda>p. truthy (part_text p) \<or> part_inlineData p = None) ps))"

section \<open>Properties of the image generation script\<close>

lemma asciiLower_JPG: "asciiLower ''.JPG'' = ''.jpg''"
  by code_simp

lemma mimeType_cases:
  "(ext = ''.jpg'' \<or> ext = ''.jpeg'' \<longrightarrow> mimeType ext = ''image/jpeg'') \<and>
   (ext = ''.png'' \<longrightarrow> mimeType ext = ''image/png'') \<and>
   (ext = ''.webp'' \<longrightarrow> mimeType ext = ''image/webp'') \<and>
   (ext = ''.gif'' \<longrightarrow> mimeType ext = ''image/gif'') \<and>
   (ext \<notin> {''.jpg'', ''.jpeg'', ''.png'', ''.webp'', ''.gif''} \<longrightarrow> mimeType ext = ''image/png'')"
  by (simp add: mimeType_def)

text \<open>
  C10. When an input image path is passed (and the file can be read), the request carries
  the prompt followed by one inline-data item whose MIME type depends only on the
  lowercased extension of the path: \<open>.jpg\<close> and \<open>.jpeg\<close> give \<open>image/jpeg\<close>, \<open>.png\<close>
  gives \<open>image/png\<close>, \<open>.webp\<close> gives \<open>image/webp\<close>, \<open>.gif\<close> gives \<open>image/gif\<close>, and every
  other extension, the empty one included, gives \<open>image/png\<close>.
\<close>

theorem mimeType_from_extension:
  assumes "imagePath options = Some p" and "p \<noteq> []" and "fs p = Some d"
  shows "\<exists>m. buildContents e options fs
               = Inr [TextItem (prompt options), InlineDataItem m (toBase64 e d)] \<and>
             (let ext = toLowerCase e (extname e p) in
                (ext = ''.jpg'' \<or> ext = ''.jpeg'' \<longrightarrow> m = ''image/jpeg'') \<and>
                (ext = ''.png'' \<longrightarrow> m = ''image/png'') \<and>
                (ext = ''.webp'' \<longrightarrow> m = ''image/webp'') \<and>
                (ext = ''.gif'' \<longrightarrow> m = ''image/gif'') \<and>
                (ext \<notin> {''.jpg'', ''.jpeg'', ''.png'', ''.webp'', ''.gif''} \<longrightarrow> m = ''image/png''))"
proof -
  let ?ext = "toLowerCase e (extname e p)"
  have "buildContents e options fs
          = Inr [TextItem (prompt options), InlineDataItem (mimeType ?ext) (toBase64 e d)]"
    using assms by (simp add: buildContents_def truthy_def)
  with mimeType_cases [of ?ext] show ?thesis
    unfolding Let_def by blast
qed

theorem mimeType_from_extension_witness:
  "\<exists>m. buildContents (testEnv (responseOf []))
          \<lparr>prompt = ''p'', imagePath = Some ''cat.JPG'', outputPath = None\<rparr>
          [''cat.JPG'' \<mapsto> ''JF'']
        = Inr [TextItem ''p'', InlineDataItem m ''JF''] \<and> m = ''image/jpeg''"
  using mimeType_from_extension
    [of "\<lparr>prompt = ''p'', imagePath = Some ''cat.JPG'', outputPath = None\<rparr>" "''cat.JPG''"
        "[''cat.JPG'' \<mapsto> ''JF'']" "''JF''" "testEnv (responseOf [])"]
  by (simp add: testEnv_def lastDotExt_def asciiLower_JPG)

lemma scanParts_result:
  "fst (scanParts e out ps w) =
     (case firstImagePart ps of
        None \<Rightarrow> Inl (Error ''No image was generated in the response'')
      | Some p \<Rightarrow>
          (case blob_data (the (part_inlineData p)) of
             None \<Rightarrow> Inl TypeError
           | Some d \<Rightarrow> if canWrite e out then Inr out else Inl (WriteError out)))"
  by (induction ps arbitrary: w)
     (auto simp: firstImagePart_def split: option.splits)

lemma scanParts_files:
  "files (snd (scanParts e out ps w)) =
     (case firstImagePart ps of
        None \<Rightarrow> files w
      | Some p \<Rightarrow>
          (case blob_data (the (part_inlineData p)) of
             None \<Rightarrow> files w
           | Some d \<Rightarrow>
               if canWrite e out then (files w)(out \<mapsto> fromBase64 e d) else files w))"
  by (induction ps arbitrary: w)
     (auto simp: firstImagePart_def split: option.splits)

lemma scanParts_world:
  "scanParts e out ps w =
     (case firstImagePart ps of
        None \<Rightarrow>
          (Inl (Error ''No image was generated in the response''),
           w\<lparr>console := console w @ loggedTexts ps\<rparr>)
      | Some p \<Rightarrow>
          (case blob_data (the (part_inlineData p)) of
             None \<Rightarrow> (Inl TypeError, w\<lparr>console := console w @ loggedTexts ps\<rparr>)
           | Some d \<Rightarrow>
               if canWrite e out then
                 (Inr out,
                  w\<lparr>files := (files w)(out \<mapsto> fromBase64 e d),
                    console := console w @ loggedTexts ps @ [''Image saved as '' @ out]\<rparr>)
               else (Inl (WriteError out), w\<lparr>console := console w @ loggedTexts ps\<rparr>)))"
proof (induction ps arbitrary: w)
  case Nil
  then show ?case by (simp add: firstImagePart_def loggedTexts_def)
next
  case (Cons p ps)
  show ?case
  proof (cases "truthy (part_text p)")
    case True
    then show ?thesis
      using Cons.IH [of "w\<lparr>console := console w @ [''Response text: '' @ the (part_text p)]\<rparr>"]
      by (simp add: firstImagePart_def loggedTexts_def split: option.splits)
  next
    case False
    then show ?thesis
      using Cons.IH [of w]
      by (cases "part_inlineData p")
         (simp_all add: firstImagePart_def loggedTexts_def split: option.splits)
  qed
qed

lemma outputPathOf_cases:
  "outputPathOf options =
     (case outputPath options of
        None \<Rightarrow> ''generated-image.png''
      | Some out \<Rightarrow> if out = [] then ''generated-image.png'' else out)"
  by (simp add: outputPathOf_def truthy_def split: option.splits)

text \<open>
  The client is constructed first: when that throws, nothing is read, sent or written.
\<close>

lemma generateImage_client_fails:
  assumes "newClient e = Some err"
  shows "generateImage e options w = (Inl err, w)"
  using assms by (simp add: generateImage_def)

text \<open>
  A response without a first candidate, or whose first candidate has no content or no
  parts, ends the call with a \<open>TypeError\<close> before the loop is entered; nothing is written.
\<close>

lemma generateImage_no_parts:
  assumes "newClient e = None"
    and "buildContents e options (files w) = Inr cs"
    and "generateContent e cs = Inr r"
    and "responseParts r = None"
  shows "generateImage e options w = (Inl TypeError, w)"
  using assms by (simp add: generateImage_def)

lemma generateImage_request_fails:
  assumes "newClient e = None"
    and "buildContents e options (files w) = Inr cs"
    and "generateContent e cs = Inl err"
  shows "generateImage e options w = (Inl err, w)"
  using assms by (simp add: generateImage_def)

lemma generateImage_read_fails:
  assumes "newClient e = None"
    and "imagePath options = Some p" and "p \<noteq> []" and "files w p = None"
  shows "generateImage e options w = (Inl (ReadError p), w)"
  using assms by (simp add: generateImage_def buildContents_def truthy_def)

text \<open>
  C9, as stated, fails. The options provide the empty string as output path, and the first
  part of the response that contains inline data is \<open>captionedPart\<close>, which also has
  text. The claim predicts that the data \<open>AAAA\<close> of that part is written to the provided
  path, which is returned. The script logs the part as text and goes on; it writes the data
  \<open>BBBB\<close> of the next part to \<open>generated-image.png\<close> and returns that name.
\<close>

theorem generateImage_first_inlineData_counterexample:
  "part_inlineData captionedPart \<noteq> None \<and>
   fst (generateImage (testEnv (responseOf [captionedPart, imagePart]))
          \<lparr>prompt = ''a cat'', imagePath = None, outputPath = Some []\<rparr> emptyWorld)
     = Inr ''generated-image.png'' \<and>
   files (snd (generateImage (testEnv (responseOf [captionedPart, imagePart]))
          \<lparr>prompt = ''a cat'', imagePath = None, outputPath = Some []\<rparr> emptyWorld))
     ''generated-image.png'' = Some ''BBBB'' \<and>
   files (snd (generateImage (testEnv (responseOf [captionedPart, imagePart]))
          \<lparr>prompt = ''a cat'', imagePath = None, outputPath = Some []\<rparr> emptyWorld))
     [] = None"
  by (simp add: generateImage_def buildContents_def truthy_def testEnv_def responseOf_def
        responseParts_def outputPathOf_def captionedPart_def imagePart_def emptyWorld_def)

text \<open>
  C9, amended. When the client has been constructed, the request has been sent and the
  response has a first candidate with parts, the parts are visited in order. Every part
  with non-empty text that comes before the first part without such text that contains
  \<open>inlineData\<close> is logged and skipped, even if it carries inline data itself. At that
  first part, the decoded data is written to the output path, the saving is logged and the
  path is returned; later parts are not visited. If that \<open>inlineData\<close> has no \<open>data\<close>,
  or the file system refuses the write, an error is raised instead and no file is
  written. The output path is \<open>options.outputPath\<close> when that is provided and not empty,
  and \<open>generated-image.png\<close> otherwise. If there is no such part, every part with
  non-empty text is logged, the call fails with the message
  \<open>No image was generated in the response\<close> and no file is written. In every case the
  console gains exactly these lines and the files change in no other way.
\<close>

theorem generateImage_first_image_part:
  assumes "newClient e = None"
    and "buildContents e options (files w) = Inr cs"
    and "generateContent e cs = Inr r"
    and "responseParts r = Some ps"
  shows "generateImage e options w =
           (case firstImagePart ps of
              None \<Rightarrow>
                (Inl (Error ''No image was generated in the response''),
                 w\<lparr>console := console w @ loggedTexts ps\<rparr>)
            | Some p \<Rightarrow>
                (case blob_data (the (part_inlineData p)) of
                   None \<Rightarrow> (Inl TypeError, w\<lparr>console := console w @ loggedTexts ps\<rparr>)
                 | Some d \<Rightarrow>
                     if canWrite e (outputPathOf options) then
                       (Inr (outputPathOf options),
                        w\<lparr>files := (files w)(outputPathOf options \<mapsto> fromBase64 e d),
                          console := console w @ loggedTexts ps
                            @ [''Image saved as '' @ outputPathOf options]\<rparr>)
                     else
                       (Inl (WriteError (outputPathOf options)),
                        w\<lparr>console := console w @ loggedTexts ps\<rparr>))) \<and>
         loggedTexts ps =
           map (\<lambda>p. ''Response text: '' @ the (part_text p))
             (filter (\<lambda>p. truthy (part_text p))
                (takeWhile (\<lambda>p. truthy (part_text p) \<or> part_inlineData p = None) ps)) \<and>
         firstImagePart ps =
           find (\<lambda>p. \<not> truthy (part_text p) \<and> part_inlineData p \<noteq> None) ps \<and>
         outputPathOf options =
           (case outputPath options of
              None \<Rightarrow> ''generated-image.png''
            | Some out \<Rightarrow> if out = [] then ''generated-image.png'' else out)"
proof -
  have g: "generateImage e options w = scanParts e (outputPathOf options) ps w"
    using assms by (simp add: generateImage_def)
  have o: "outputPathOf options =
             (case outputPath options of
                None \<Rightarrow> ''generated-image.png''
              | Some out \<Rightarrow> if out = [] then ''generated-image.png'' else out)"
    by (rule outputPathOf_cases)
  from g scanParts_world [of e "outputPathOf options" ps w] o show ?thesis
    by (simp add: loggedTexts_def firstImagePart_def)
qed

theorem generateImage_first_image_part_witness:
  "generateImage (testEnv (responseOf [captionedPart, imagePart, captionedPart]))
     \<lparr>prompt = ''a cat'', imagePath = None, outputPath = Some ''out.png''\<rparr> emptyWorld
   = (Inr ''out.png'',
      \<lparr>files = [''out.png'' \<mapsto> ''BBBB''],
       console = [''Response text: caption'', ''Image saved as out.png'']\<rparr>)"
  using generateImage_first_image_part
    [of "testEnv (responseOf [captionedPart, imagePart, captionedPart])"
        "\<lparr>prompt = ''a cat'', imagePath = None, outputPath = Some ''out.png''\<rparr>"
        emptyWorld "[TextItem ''a cat'']" "responseOf [captionedPart, imagePart, captionedPart]"
        "[captionedPart, imagePart, captionedPart]"]
  by (simp add: buildContents_def truthy_def testEnv_def responseOf_def responseParts_def
        firstImagePart_def loggedTexts_def captionedPart_def imagePart_def emptyWorld_def
        outputPathOf_def)

end
